theory Spec2Isabelle
  imports Complex_Main "HOL-Library.Char_ord"
begin

section \<open>Strings and numbers of the server\<close>

text \<open>
  A JavaScript string is modelled as a \<open>string\<close>: a list of characters, each one read as the
  code unit of the same number (U+0000 to U+00FF). The character classes below are the
  ECMAScript ones cut down to that range: \<open>\s\<close> (which is also what \<open>trim\<close> strips) is
  TAB, LF, VT, FF, CR, SPACE and NBSP; \<open>\d\<close> is \<open>0\<close> to \<open>9\<close>; the line terminators,
  which \<open>.\<close> does not match, are LF and CR.
\<close>

definition code :: "char \<Rightarrow> nat" where
  "code c = of_char c"

definition isDigit :: "char \<Rightarrow> bool" where
  "isDigit c = (48 \<le> code c \<and> code c \<le> 57)"

definition isSpace :: "char \<Rightarrow> bool" where
  "isSpace c = (code c \<in> {9, 10, 11, 12, 13, 32, 160})"

definition isLineTerminator :: "char \<Rightarrow> bool" where
  "isLineTerminator c = (code c \<in> {10, 13})"

text \<open>\<open>String.prototype.toLowerCase\<close>: A to Z, and the capital letters U+00C0 to U+00DE
  (U+00D7, the multiplication sign, is not a letter), move up by 32.\<close>

definition toLowerChar :: "char \<Rightarrow> char" where
  "toLowerChar c =
     (if (65 \<le> code c \<and> code c \<le> 90) \<or> (192 \<le> code c \<and> code c \<le> 222 \<and> code c \<noteq> 215)
      then char_of (code c + 32) else c)"

definition toLowerCase :: "string \<Rightarrow> string" where
  "toLowerCase s = map toLowerChar s"

text \<open>The canonical form under which a regular expression with the \<open>i\<close> flag compares two
  characters, given by its code unit: the upper-case letter of a lower-case one, every
  other character itself.\<close>

definition canonicalize :: "char \<Rightarrow> nat" where
  "canonicalize c =
     (if (97 \<le> code c \<and> code c \<le> 122) \<or> (224 \<le> code c \<and> code c \<le> 254 \<and> code c \<noteq> 247)
      then code c - 32 else code c)"

definition trim :: "string \<Rightarrow> string" where
  "trim s = rev (dropWhile isSpace (rev (dropWhile isSpace s)))"

text \<open>\<open>String.prototype.includes\<close>: the second string occurs somewhere in the first.\<close>

fun includesStr :: "string \<Rightarrow> string \<Rightarrow> bool" where
  "includesStr [] sub = (sub = [])"
| "includesStr (c # s) sub = (take (length sub) (c # s) = sub \<or> includesStr s sub)"

text \<open>
  A number is an IEEE double: \<open>NaN\<close>, an infinity, or a finite value, which is kept as
  the rational it stands for. Every operation that the code makes on numbers gives the
  double nearest to the exact result (\<open>toDouble\<close>). The only thing left out is the sign of
  zero: there is one zero. \<open>undefined\<close> and \<open>null\<close> are the \<open>None\<close> of an option.
\<close>

datatype jsnum = NaN | Finite rat | PosInfinity | NegInfinity

definition pow2 :: "int \<Rightarrow> rat" where
  "pow2 k = (if 0 \<le> k then 2 ^ nat k else 1 / 2 ^ nat (- k))"

text \<open>The number of binary digits of a natural number.\<close>

fun bitLength :: "nat \<Rightarrow> nat" where
  "bitLength n = (if n = 0 then 0 else Suc (bitLength (n div 2)))"

declare bitLength.simps [simp del]

text \<open>The binary exponent of a positive rational: the \<open>e\<close> with \<open>2 ^ e \<le> q < 2 ^ (e + 1)\<close>.\<close>

definition exponentOf :: "rat \<Rightarrow> int" where
  "exponentOf q =
     (if 1 \<le> q then int (bitLength (nat \<lfloor>q\<rfloor>)) - 1
      else - int (bitLength (nat (\<lceil>1 / q\<rceil> - 1))))"

text \<open>The nearest integer, a tie going to the even one.\<close>

definition roundHalfEven :: "rat \<Rightarrow> int" where
  "roundHalfEven x =
     (let f = \<lfloor>x\<rfloor>; d = x - of_int f
      in if d < 1 / 2 then f else if 1 / 2 < d then f + 1 else if even f then f else f + 1)"

text \<open>
  The double nearest to a rational that is not negative, \<open>None\<close> when it overflows. A double
  has 53 significant binary digits, its exponent is at least -1022 (below that the spacing
  stays that of the subnormal numbers), and a value of at least \<open>2 ^ 1024 - 2 ^ 970\<close>,
  half a step above the largest double, rounds to infinity.
\<close>

definition nearest :: "rat \<Rightarrow> rat option" where
  "nearest q =
     (if q = 0 then Some 0
      else if pow2 1024 - pow2 970 \<le> q then None
      else (let ulp = pow2 (max (exponentOf q) (- 1022) - 52)
            in Some (of_int (roundHalfEven (q / ulp)) * ulp)))"

definition toDouble :: "rat \<Rightarrow> jsnum" where
  "toDouble q =
     (if 0 \<le> q then (case nearest q of None \<Rightarrow> PosInfinity | Some r \<Rightarrow> Finite r)
      else (case nearest (- q) of None \<Rightarrow> NegInfinity | Some r \<Rightarrow> Finite (- r)))"

text \<open>What \<open>if (x)\<close>, \<open>!x\<close> and \<open>x || d\<close> test on a number that may be missing:
  \<open>undefined\<close>, \<open>null\<close>, \<open>0\<close> and \<open>NaN\<close> are falsy.\<close>

fun truthy :: "jsnum option \<Rightarrow> bool" where
  "truthy None = False"
| "truthy (Some NaN) = False"
| "truthy (Some (Finite q)) = (q \<noteq> 0)"
| "truthy (Some PosInfinity) = True"
| "truthy (Some NegInfinity) = True"

text \<open>\<open>x || d\<close>\<close>

fun orElse :: "jsnum option \<Rightarrow> jsnum \<Rightarrow> jsnum" where
  "orElse None d = d"
| "orElse (Some v) d = (if truthy (Some v) then v else d)"

text \<open>\<open>Math.round\<close>: the nearest integer, a tie going up. The result of a finite double is
  a double, so nothing is rounded twice.\<close>

fun Math_round :: "jsnum \<Rightarrow> jsnum" where
  "Math_round NaN = NaN"
| "Math_round (Finite q) = Finite (of_int \<lfloor>q + 1 / 2\<rfloor>)"
| "Math_round PosInfinity = PosInfinity"
| "Math_round NegInfinity = NegInfinity"

text \<open>The operators \<open>*\<close> and \<open>/\<close>.\<close>

fun mulNum :: "jsnum \<Rightarrow> jsnum \<Rightarrow> jsnum" where
  "mulNum (Finite a) (Finite b) = toDouble (a * b)"
| "mulNum (Finite a) PosInfinity = (if a = 0 then NaN else if 0 < a then PosInfinity else NegInfinity)"
| "mulNum (Finite a) NegInfinity = (if a = 0 then NaN else if 0 < a then NegInfinity else PosInfinity)"
| "mulNum PosInfinity (Finite b) = (if b = 0 then NaN else if 0 < b then PosInfinity else NegInfinity)"
| "mulNum NegInfinity (Finite b) = (if b = 0 then NaN else if 0 < b then NegInfinity else PosInfinity)"
| "mulNum PosInfinity PosInfinity = PosInfinity"
| "mulNum PosInfinity NegInfinity = NegInfinity"
| "mulNum NegInfinity PosInfinity = NegInfinity"
| "mulNum NegInfinity NegInfinity = PosInfinity"
| "mulNum NaN b = NaN"
| "mulNum a NaN = NaN"

fun divNum :: "jsnum \<Rightarrow> jsnum \<Rightarrow> jsnum" where
  "divNum (Finite a) (Finite b) =
     (if b = 0 then (if a = 0 then NaN else if 0 < a then PosInfinity else NegInfinity)
      else toDouble (a / b))"
| "divNum (Finite a) PosInfinity = Finite 0"
| "divNum (Finite a) NegInfinity = Finite 0"
| "divNum PosInfinity (Finite b) = (if 0 \<le> b then PosInfinity else NegInfinity)"
| "divNum NegInfinity (Finite b) = (if 0 \<le> b then NegInfinity else PosInfinity)"
| "divNum PosInfinity PosInfinity = NaN"
| "divNum PosInfinity NegInfinity = NaN"
| "divNum NegInfinity PosInfinity = NaN"
| "divNum NegInfinity NegInfinity = NaN"
| "divNum NaN b = NaN"
| "divNum a NaN = NaN"

text \<open>What \<open>res.json\<close> sends for a number (\<open>JSON.stringify\<close>): the number when it is finite,
  and \<open>null\<close>, here \<open>None\<close>, for \<open>NaN\<close> and the infinities.\<close>

fun jsonNumber :: "jsnum \<Rightarrow> rat option" where
  "jsonNumber (Finite q) = Some q"
| "jsonNumber NaN = None"
| "jsonNumber PosInfinity = None"
| "jsonNumber NegInfinity = None"

section \<open>parsePrice\<close>

definition digitsValue :: "string \<Rightarrow> rat" where
  "digitsValue ds = foldl (\<lambda>acc c. 10 * acc + of_nat (code c - 48)) 0 ds"

text \<open>
  \<open>parseFloat\<close> on a run of digits and points, the only strings \<open>parsePrice\<close> gives it:
  the longest prefix that is a decimal literal (digits, then at most one point and digits,
  with a digit somewhere) is read, and the result is the double nearest to its decimal
  value; it is \<open>NaN\<close> when there is no such prefix.
\<close>

definition parseFloat :: "string \<Rightarrow> jsnum" where
  "parseFloat s =
     (let ip = takeWhile isDigit s;
          r = dropWhile isDigit s;
          fp = (case r of [] \<Rightarrow> [] | c # r' \<Rightarrow> if c = CHR ''.'' then takeWhile isDigit r' else [])
      in if ip = [] \<and> fp = [] then NaN
         else toDouble (digitsValue ip + digitsValue fp / 10 ^ length fp))"

text \<open>The character class \<open>[\d.]\<close>.\<close>

definition isPriceChar :: "char \<Rightarrow> bool" where
  "isPriceChar c = (isDigit c \<or> c = CHR ''.'')"

text \<open>
  \<^verbatim>\<open>
  function parsePrice(text) {
    if (!text) return null;
    const cleaned = text.replace(/[,$]/g, '').trim();
    const match = cleaned.match(/[\d.]+/);
    return match ? parseFloat(match[0]) : null;
  }
  \<close>
  The match of \<open>/[\d.]+/\<close> is the first maximal run of digits and points.
\<close>

definition parsePrice :: "string \<Rightarrow> jsnum option" where
  "parsePrice text =
     (if text = [] then None
      else let cleaned = trim (filter (\<lambda>c. c \<noteq> CHR '','' \<and> c \<noteq> CHR ''$'') text);
               match = takeWhile isPriceChar (dropWhile (\<lambda>c. \<not> isPriceChar c) cleaned)
           in if match = [] then None else Some (parseFloat match))"

section \<open>The label patterns\<close>

text \<open>
  Every pattern of the table scan is a sequence of literal words with \<open>.*\<close> between them,
  matched anywhere in the label and with the \<open>i\<close> flag. \<open>matchHere\<close> is a match that starts
  at the head of the string, \<open>matches\<close> is \<open>label.match(re)\<close> read as a truth value.
\<close>

datatype regex_item = Chars string | AnyStar

text \<open>The string starts with the word, letter case ignored.\<close>

fun startsWithIgnoreCase :: "string \<Rightarrow> string \<Rightarrow> bool" where
  "startsWithIgnoreCase s [] = True"
| "startsWithIgnoreCase [] (x # w) = False"
| "startsWithIgnoreCase (c # s) (x # w) =
     (if canonicalize c = canonicalize x then startsWithIgnoreCase s w else False)"

fun matchHere :: "regex_item list \<Rightarrow> string \<Rightarrow> bool" where
  "matchHere [] s = True"
| "matchHere (Chars w # ps) s =
     (if startsWithIgnoreCase s w then matchHere ps (drop (length w) s) else False)"
| "matchHere (AnyStar # ps) [] = matchHere ps []"
| "matchHere (AnyStar # ps) (c # s) =
     (if matchHere ps (c # s) then True
      else if isLineTerminator c then False
      else matchHere (AnyStar # ps) s)"

fun matches :: "string \<Rightarrow> regex_item list \<Rightarrow> bool" where
  "matches [] re = matchHere re []"
| "matches (c # s) re = (if matchHere re (c # s) then True else matches s re)"

text \<open>\<open>words [w1, w2, ...]\<close> is the pattern \<open>/w1.*w2.* ... /\<close>.\<close>

fun words :: "string list \<Rightarrow> regex_item list" where
  "words [] = []"
| "words [w] = [Chars w]"
| "words (w # v # ws) = Chars w # AnyStar # words (v # ws)"

datatype category = HousingCenter | HousingOutside | MealRestaurant | Transportation | Utilities

text \<open>The chain of \<open>if\<close> and \<open>else if\<close> of the scan (the first pattern that matches decides;
  \<open>None\<close> is a label that no branch takes).\<close>

definition classify :: "string \<Rightarrow> category option" where
  "classify label =
     (if matches label (words [''apartment'', ''1'', ''bedroom'', ''city'', ''centre''])
         \<or> matches label (words [''rent'', ''1'', ''bed'', ''center''])
      then Some HousingCenter
      else if matches label (words [''apartment'', ''1'', ''bedroom'', ''outside''])
         \<or> matches label (words [''rent'', ''1'', ''bed'', ''outside''])
      then Some HousingOutside
      else if matches label (words [''meal'', ''inexpensive'', ''restaurant''])
         \<or> matches label (words [''meal'', ''cheap'', ''restaurant''])
      then Some MealRestaurant
      else if matches label (words [''monthly'', ''pass''])
         \<or> matches label (words [''public'', ''transport''])
      then Some Transportation
      else if matches label (words [''basic'', ''utilities''])
         \<or> matches label (words [''electricity'', ''heating'', ''cooling''])
      then Some Utilities
      else None)"

section \<open>scrapeNumbeo\<close>

text \<open>
  The slug that \<open>scrapeNumbeo\<close> derives from the city only makes the URL of the request.
  The page that the request to Numbeo brings back is a parameter: \<open>None\<close> when the request
  fails (any status but 200, a timeout, a network error: the \<open>catch\<close> returns \<open>null\<close>),
  otherwise the tables that the selector finds, in document order, each with its rows
  (\<open>tr\<close>), each row with the texts of its cells (\<open>td\<close>).
\<close>

type_synonym row = "string list"
type_synonym table = "row list"
type_synonym document = "table list"

record data =
  source :: string
  city :: string
  categories :: "category \<rightharpoonup> jsnum"
  rawData :: "(string \<times> jsnum) list"

text \<open>The body of the callback of \<open>find('tr').each\<close>, on one row.\<close>

definition scanRow :: "data \<Rightarrow> row \<Rightarrow> data" where
  "scanRow d cells =
     (if 2 \<le> length cells then
        (let label = trim (cells ! 0);
             priceText = trim (cells ! 1);
             price = parsePrice priceText
         in if label \<noteq> [] \<and> truthy price then
              (case price of
                 None \<Rightarrow> d
               | Some p \<Rightarrow>
                   (let d' = d\<lparr>rawData := rawData d @ [(label, p)]\<rparr>
                    in case classify label of
                         None \<Rightarrow> d'
                       | Some k \<Rightarrow> d'\<lparr>categories := (categories d')(k \<mapsto> p)\<rparr>))
            else d)
      else d)"

definition scanRows :: "data \<Rightarrow> row list \<Rightarrow> data" where
  "scanRows d rows = foldl scanRow d rows"

definition scanTables :: "data \<Rightarrow> document \<Rightarrow> data" where
  "scanTables d tables = foldl scanRows d tables"

text \<open>The empty \<open>data\<close> object that \<open>scrapeNumbeo\<close> starts the scan with.\<close>

definition initialData :: "string \<Rightarrow> data" where
  "initialData c = \<lparr>source = ''Numbeo'', city = c, categories = Map.empty, rawData = []\<rparr>"

definition scrapeNumbeo :: "string \<Rightarrow> document option \<Rightarrow> data option" where
  "scrapeNumbeo c response =
     (case response of
        None \<Rightarrow> None
      | Some tables \<Rightarrow>
          if length tables = 0 then None
          else (let d = scanTables (initialData c) tables
                in if \<not> truthy (categories d HousingCenter) \<and> length (rawData d) = 0 then None
                   else Some d))"

section \<open>The estimate and the fallback table\<close>

text \<open>
  \<^verbatim>\<open>
  function estimateGroceries(mealPrice) {
    if (!mealPrice) return 400; // Default estimate
    return Math.round((mealPrice * 60) / 3);
  }
  \<close>
\<close>

fun estimateGroceries :: "jsnum option \<Rightarrow> jsnum" where
  "estimateGroceries None = Finite 400"
| "estimateGroceries (Some mealPrice) =
     (if \<not> truthy (Some mealPrice) then Finite 400
      else Math_round (divNum (mulNum mealPrice (Finite 60)) (Finite 3)))"

record fallback_record =
  housing :: jsnum
  outside :: jsnum
  meal :: jsnum
  transport :: jsnum
  utilities :: jsnum

definition entry :: "rat \<Rightarrow> rat \<Rightarrow> rat \<Rightarrow> rat \<Rightarrow> rat \<Rightarrow> fallback_record" where
  "entry h out m t u =
     \<lparr>housing = Finite h, outside = Finite out, meal = Finite m, transport = Finite t,
      utilities = Finite u\<rparr>"

definition fallbackCities :: "(string \<times> fallback_record) list" where
  "fallbackCities =
     [(''new york'', entry 3500 2500 20 127 150),
      (''newyork'', entry 3500 2500 20 127 150),
      (''london'', entry 2200 1600 18 165 200),
      (''tokyo'', entry 1200 700 10 70 150),
      (''paris'', entry 1400 1000 15 75 180),
      (''singapore'', entry 2800 2000 10 100 150),
      (''mountain view'', entry 3200 2600 18 100 120),
      (''mountainview'', entry 3200 2600 18 100 120),
      (''mountain view, ca'', entry 3200 2600 18 100 120),
      (''mountainviewca'', entry 3200 2600 18 100 120),
      (''los angeles'', entry 2500 1800 18 100 140),
      (''losangeles'', entry 2500 1800 18 100 140),
      (''los angeles, ca'', entry 2500 1800 18 100 140),
      (''la'', entry 2500 1800 18 100 140),
      (''san francisco'', entry 3600 2800 20 98 130),
      (''sanfrancisco'', entry 3600 2800 20 98 130),
      (''seattle'', entry 2300 1700 17 99 160),
      (''austin'', entry 1700 1300 15 75 150),
      (''boston'', entry 2900 2100 18 90 170),
      (''chicago'', entry 1900 1400 16 105 140)]"

text \<open>
  \<open>fallbackCities[cityKey]\<close> reads a property of an object literal. A key of the literal gives
  its record. A key that the literal does not have is looked up in \<open>Object.prototype\<close>, which
  has two properties with a lower-case name, \<open>constructor\<close> and \<open>__proto__\<close>: their values are
  objects (truthy) with none of the five fields. Any other key gives \<open>undefined\<close>.
\<close>

datatype property = Own fallback_record | Inherited

definition cityKey :: "string \<Rightarrow> string" where
  "cityKey c = filter (\<lambda>x. x \<noteq> CHR '','') (filter (\<lambda>x. \<not> isSpace x) (toLowerCase c))"

definition getFallbackData :: "string \<Rightarrow> property option" where
  "getFallbackData c =
     (case map_of fallbackCities (cityKey c) of
        Some r \<Rightarrow> Some (Own r)
      | None \<Rightarrow> if cityKey c = ''constructor'' \<or> cityKey c = ''__proto__'' then Some Inherited
                else None)"

section \<open>The request handler\<close>

text \<open>
  The handler of \<open>GET /api/cost-of-living/:city\<close>. Its parameters are the city of the URL
  and what the outside world gives the request: the date string of the day, the page
  that Numbeo answers with (see \<open>scrapeNumbeo\<close>) and the posts that \<open>searchReddit\<close>
  returns (the empty list when the search fails). It ends with the 404 body or with the
  response; nothing in it throws, so the 500 branch is never taken.
\<close>

record reddit_post =
  title :: string
  subreddit :: string
  url :: string
  score :: int
  comments :: int

record response =
  resp_city :: string
  currency :: string
  lastUpdated :: string
  housing_label :: string
  housing_cityCenter :: jsnum
  housing_outside :: jsnum
  food_label :: string
  food_monthly :: jsnum
  transportation_label :: string
  transportation_monthly :: jsnum
  utilities_label :: string
  utilities_monthly :: jsnum
  entertainment_label :: string
  entertainment_monthly :: jsnum
  sources :: "string list"
  redditDiscussions :: "reddit_post list"

record not_found =
  status :: nat
  error :: string
  message :: string
  suggestion :: string
  tip :: string

definition quote :: "string \<Rightarrow> string" where
  "quote s = [CHR 0x22] @ s @ [CHR 0x22]"

text \<open>The body sent with status 404.\<close>

definition notFound :: "string \<Rightarrow> not_found" where
  "notFound c =
     (let suggestions =
            (if includesStr (toLowerCase c) ''mountain''
             then ''Try: '' @ quote ''Mountain View'' @ '' without CA''
             else ''Try major cities like: New York, Los Angeles, San Francisco, Seattle, Chicago, Boston, Austin, or international cities like London, Tokyo, Paris'')
      in \<lparr>status = 404,
          error = ''City not found'',
          message = ''Could not find cost of living data for '' @ quote c
                    @ ''. The city might not be in Numbeo'' @ [CHR 0x27] @ ''s database.'',
          suggestion = suggestions,
          tip = ''For US cities, try without the state code (e.g., '' @ quote ''Los Angeles''
                @ '' instead of '' @ quote ''Los Angeles, CA'' @ '')''\<rparr>)"

text \<open>The object that the handler builds from what the fallback lookup returned; the fields of
  an inherited property are all \<open>undefined\<close>.\<close>

fun fromFallback :: "property \<Rightarrow> (category \<rightharpoonup> jsnum)" where
  "fromFallback (Own fallback) =
     [HousingCenter \<mapsto> housing fallback,
      HousingOutside \<mapsto> outside fallback,
      MealRestaurant \<mapsto> meal fallback,
      Transportation \<mapsto> transport fallback,
      Utilities \<mapsto> utilities fallback]"
| "fromFallback Inherited = Map.empty"

text \<open>The estimates and the response, once \<open>finalData\<close> is chosen (from
  \<open>// Calculate estimates\<close> to \<open>res.json(response)\<close>).\<close>

definition assemble ::
  "string \<Rightarrow> string \<Rightarrow> (category \<rightharpoonup> jsnum) \<Rightarrow> data option \<Rightarrow> reddit_post list \<Rightarrow> response" where
  "assemble c today finalData numbeoData redditPosts =
     (let groceries = estimateGroceries (finalData MealRestaurant);
          entertainment = Math_round (mulNum (orElse (finalData MealRestaurant) (Finite 15)) (Finite 10))
      in \<lparr>resp_city = c,
          currency = ''USD'',
          lastUpdated = today,
          housing_label = ''Housing (1-bedroom apt)'',
          housing_cityCenter = Math_round (orElse (finalData HousingCenter) (Finite 1200)),
          housing_outside = Math_round (orElse (finalData HousingOutside) (Finite 800)),
          food_label = ''Food & Groceries'',
          food_monthly = groceries,
          transportation_label = ''Transportation'',
          transportation_monthly = Math_round (orElse (finalData Transportation) (Finite 70)),
          utilities_label = ''Utilities'',
          utilities_monthly = Math_round (orElse (finalData Utilities) (Finite 150)),
          entertainment_label = ''Entertainment'',
          entertainment_monthly = entertainment,
          sources = (if numbeoData \<noteq> None then [''Numbeo.com (live)'', ''Reddit discussions'']
                     else [''Estimated data'', ''Reddit discussions'']),
          redditDiscussions = take 5 redditPosts\<rparr>)"

definition handler ::
  "string \<Rightarrow> string \<Rightarrow> document option \<Rightarrow> reddit_post list \<Rightarrow> not_found + response" where
  "handler c today page redditPosts =
     (let numbeoData = scrapeNumbeo c page;
          viaFallback =
            (case getFallbackData c of
               None \<Rightarrow> Inl (notFound c)
             | Some fallback \<Rightarrow> Inr (assemble c today (fromFallback fallback) numbeoData redditPosts))
      in case numbeoData of
           None \<Rightarrow> viaFallback
         | Some nd \<Rightarrow>
             if truthy (categories nd HousingCenter)
             then Inr (assemble c today (categories nd) numbeoData redditPosts)
             else viaFallback)"

section \<open>Notions used to state the properties\<close>

text \<open>What the scan records of a row in the raw list, if anything: the guard of \<open>scanRow\<close>
  alone (two cells, a label that is not empty, a price that is truthy).\<close>

definition rowEntry :: "row \<Rightarrow> (string \<times> jsnum) option" where
  "rowEntry cells =
     (if 2 \<le> length cells then
        (case parsePrice (trim (cells ! 1)) of
           None \<Rightarrow> None
         | Some p \<Rightarrow> if trim (cells ! 0) \<noteq> [] \<and> truthy (Some p) then Some (trim (cells ! 0), p)
                     else None)
      else None)"

text \<open>A rounded amount: a finite number with no fractional part.\<close>

fun isWhole :: "jsnum \<Rightarrow> bool" where
  "isWhole NaN = False"
| "isWhole (Finite q) = (of_int \<lfloor>q\<rfloor> = q)"
| "isWhole PosInfinity = False"
| "isWhole NegInfinity = False"


text \<open>Two strings that are equal when letter case is ignored.\<close>

definition equalIgnoreCase :: "string \<Rightarrow> string \<Rightarrow> bool" where
  "equalIgnoreCase s w = (map canonicalize s = map canonicalize w)"

text \<open>The text of \<open>1\<close> followed by 309 zeros: the price \<open>10 ^ 309\<close>, above every double.\<close>

definition hugePrice :: string where
  "hugePrice = ''1'' @ replicate 309 (CHR ''0'')"

section \<open>Evaluation lemmas\<close>

lemmas char_classes = code_def isSpace_def isDigit_def isLineTerminator_def isPriceChar_def
  canonicalize_def

lemma floor_rat_divide_numeral: "\<lfloor>numeral a / numeral b :: rat\<rfloor> = numeral a div numeral b"
  by (metis floor_divide_of_int_eq of_int_numeral)

lemma floor_rat_one_divide_numeral: "\<lfloor>1 / numeral b :: rat\<rfloor> = 1 div numeral b"
  by (metis floor_divide_of_int_eq of_int_1 of_int_numeral)

lemma ceiling_rat_divide_numeral: "\<lceil>numeral a / numeral b :: rat\<rceil> = - (- numeral a div numeral b)"
  by (metis ceiling_divide_eq_div of_int_numeral)

lemma ceiling_rat_one_divide_numeral: "\<lceil>1 / numeral b :: rat\<rceil> = - (- 1 div numeral b)"
  by (metis ceiling_divide_eq_div of_int_1 of_int_numeral)

lemmas floor_rat = floor_rat_divide_numeral floor_rat_one_divide_numeral
  ceiling_rat_divide_numeral ceiling_rat_one_divide_numeral

lemmas double_eval = toDouble_def nearest_def exponentOf_def roundHalfEven_def pow2_def
  bitLength.simps floor_rat Let_def

lemma toDouble_eval:
  "toDouble 0 = Finite 0"
  "toDouble (7 / 2) = Finite (7 / 2)"
  "toDouble 100 = Finite 100"
  "toDouble 150 = Finite 150"
  "toDouble 180 = Finite 180"
  "toDouble 360 = Finite 360"
  "toDouble 1000 = Finite 1000"
  "toDouble 1080 = Finite 1080"
  "toDouble 2000 = Finite 2000"
  by (simp_all add: double_eval)

text \<open>A double is never \<open>NaN\<close>.\<close>

lemma toDouble_not_NaN: "toDouble q \<noteq> NaN"
  by (simp add: toDouble_def split: option.splits)

lemma cityKey_eval:
  "cityKey ''Los Angeles, CA'' = ''losangelesca''"
  "cityKey ''Los Angeles'' = ''losangeles''"
  "cityKey ''new york'' = ''newyork''"
  "cityKey ''tokyo'' = ''tokyo''"
  "cityKey ''london'' = ''london''"
  "cityKey ''Springfield'' = ''springfield''"
  "cityKey ''constructor'' = ''constructor''"
  by (simp_all add: cityKey_def toLowerCase_def toLowerChar_def char_classes char_of_def bit_0)

lemma getFallbackData_eval:
  "getFallbackData ''Los Angeles, CA'' = None"
  "getFallbackData ''Los Angeles'' = Some (Own (entry 2500 1800 18 100 140))"
  "getFallbackData ''new york'' = Some (Own (entry 3500 2500 20 127 150))"
  "getFallbackData ''tokyo'' = Some (Own (entry 1200 700 10 70 150))"
  "getFallbackData ''london'' = Some (Own (entry 2200 1600 18 165 200))"
  "getFallbackData ''Springfield'' = None"
  "getFallbackData ''constructor'' = Some Inherited"
  by (simp_all add: getFallbackData_def cityKey_eval fallbackCities_def)

lemma classify_eval:
  "classify ''Gasoline'' = None"
  "classify ''Free parking'' = None"
  "classify ''Restaurant meal, inexpensive'' = None"
  "classify ''Rent 1 bed center'' = Some HousingCenter"
  "classify ''Apartment (1 bedroom) in City Centre'' = Some HousingCenter"
  "classify ''Meal, Inexpensive Restaurant'' = Some MealRestaurant"
  by (simp_all add: classify_def char_classes)

lemma trim_eval:
  "trim ''Gasoline'' = ''Gasoline''"
  "trim ''Free parking'' = ''Free parking''"
  "trim ''Rent 1 bed center'' = ''Rent 1 bed center''"
  "trim ''Apartment (1 bedroom) in City Centre'' = ''Apartment (1 bedroom) in City Centre''"
  "trim ''3.50'' = ''3.50''"
  "trim ''0.00'' = ''0.00''"
  "trim ''1000'' = ''1000''"
  "trim ''2000'' = ''2000''"
  "trim ''.'' = ''.''"
  by (simp_all add: trim_def char_classes)

lemma parsePrice_eval:
  "parsePrice ''3.50'' = Some (Finite (7 / 2))"
  "parsePrice ''0.00'' = Some (Finite 0)"
  "parsePrice ''1000'' = Some (Finite 1000)"
  "parsePrice ''2000'' = Some (Finite 2000)"
  "parsePrice ''.'' = Some NaN"
  by (simp_all add: parsePrice_def parseFloat_def digitsValue_def trim_def char_classes
      toDouble_eval)

lemma rowEntry_eval:
  "rowEntry [''Gasoline'', ''3.50''] = Some (''Gasoline'', Finite (7 / 2))"
  "rowEntry [''Free parking'', ''0.00''] = None"
  "rowEntry [''Rent 1 bed center'', ''2000''] = Some (''Rent 1 bed center'', Finite 2000)"
  "rowEntry [''Apartment (1 bedroom) in City Centre'', ''1000'']
     = Some (''Apartment (1 bedroom) in City Centre'', Finite 1000)"
  by (simp_all add: rowEntry_def trim_eval parsePrice_eval)

section \<open>The fallback key\<close>

text \<open>No key has a space or a comma, so the entry \<open>los angeles, ca\<close> of the table is never
  the one that a lookup finds.\<close>

lemma cityKey_no_space_or_comma:
  "CHR '' '' \<notin> set (cityKey c) \<and> CHR '','' \<notin> set (cityKey c)"
  by (simp add: cityKey_def isSpace_def code_def)

lemma cityKey_never_los_angeles_ca: "cityKey c \<noteq> ''los angeles, ca''"
proof
  assume "cityKey c = ''los angeles, ca''"
  then have "CHR '' '' \<in> set (cityKey c)"
    by simp
  then show False
    using cityKey_no_space_or_comma [of c] by simp
qed

text \<open>
  Claim C1. The key of the fallback lookup is the city in lower case with every white-space
  character and every comma removed (\<open>cityKey\<close> is that, by definition), and the claim adds
  that \<open>Los Angeles, CA\<close> and \<open>Los Angeles\<close> both resolve. The second does. The first does
  not: its key is \<open>losangelesca\<close>, the table registers \<open>los angeles, ca\<close>, with the space
  and the comma that no key can contain, and has no \<open>losangelesca\<close> (Mountain View has its
  \<open>mountainviewca\<close>).
\<close>

theorem fallback_key_los_angeles_ca:
  "cityKey ''Los Angeles, CA'' = ''losangelesca''
   \<and> getFallbackData ''Los Angeles, CA'' = None
   \<and> map_of fallbackCities ''los angeles, ca'' = Some (entry 2500 1800 18 100 140)
   \<and> getFallbackData ''Los Angeles'' = Some (Own (entry 2500 1800 18 100 140))"
  by (simp add: cityKey_eval getFallbackData_eval fallbackCities_def)

section \<open>parsePrice on points without digits\<close>

lemma in_set_dropWhile: "x \<in> set s \<Longrightarrow> \<not> P x \<Longrightarrow> x \<in> set (dropWhile P s)"
  by (induction s) auto

lemma in_set_trim:
  assumes "x \<in> set s" and "\<not> isSpace x"
  shows "x \<in> set (trim s)"
proof -
  have "x \<in> set (rev (dropWhile isSpace s))"
    using in_set_dropWhile [of x s isSpace] assms by simp
  then have "x \<in> set (dropWhile isSpace (rev (dropWhile isSpace s)))"
    using assms(2) by (rule in_set_dropWhile)
  then show ?thesis by (simp add: trim_def)
qed

lemma set_trim_subset: "set (trim s) \<subseteq> set s"
proof -
  have "set (trim s) \<subseteq> set (dropWhile isSpace s)"
    unfolding trim_def using set_dropWhileD by fastforce
  then show ?thesis
    using set_dropWhileD by fastforce
qed

lemma point_not_space: "\<not> isSpace CHR ''.''"
  by (simp add: isSpace_def code_def)

lemma parseFloat_no_digit:
  assumes "\<forall>c \<in> set s. \<not> isDigit c"
  shows "parseFloat s = NaN"
proof -
  have ip: "takeWhile isDigit s = []"
    using assms by (cases s) auto
  have r: "dropWhile isDigit s = s"
    using assms by (cases s) auto
  have fp: "(case s of [] \<Rightarrow> [] | c # r' \<Rightarrow> if c = CHR ''.'' then takeWhile isDigit r' else []) = []"
  proof (cases s)
    case Nil
    then show ?thesis by simp
  next
    case (Cons c r')
    then have "takeWhile isDigit r' = []"
      using assms by (cases r') auto
    with Cons show ?thesis by simp
  qed
  show ?thesis
    unfolding parseFloat_def Let_def ip r fp by simp
qed

lemma parsePrice_no_digit:
  assumes "\<forall>c \<in> set text. \<not> isDigit c" and "CHR ''.'' \<in> set text"
  shows "parsePrice text = Some NaN"
proof -
  define cleaned where "cleaned = trim (filter (\<lambda>c. c \<noteq> CHR '','' \<and> c \<noteq> CHR ''$'') text)"
  define run where "run = takeWhile isPriceChar (dropWhile (\<lambda>c. \<not> isPriceChar c) cleaned)"
  have "CHR ''.'' \<in> set (filter (\<lambda>c. c \<noteq> CHR '','' \<and> c \<noteq> CHR ''$'') text)"
    using assms(2) by simp
  then have point: "CHR ''.'' \<in> set cleaned"
    unfolding cleaned_def using point_not_space by (rule in_set_trim)
  have "set cleaned \<subseteq> set text"
    unfolding cleaned_def using set_trim_subset by fastforce
  then have no_digit: "\<forall>c \<in> set cleaned. \<not> isDigit c"
    using assms(1) by blast
  have "CHR ''.'' \<in> set (dropWhile (\<lambda>c. \<not> isPriceChar c) cleaned)"
    using point by (rule in_set_dropWhile) (simp add: isPriceChar_def)
  then obtain c rest where dw: "dropWhile (\<lambda>c. \<not> isPriceChar c) cleaned = c # rest"
    by (cases "dropWhile (\<lambda>c. \<not> isPriceChar c) cleaned") auto
  then have "isPriceChar c"
    using hd_dropWhile [of "\<lambda>c. \<not> isPriceChar c" cleaned] by simp
  then have nonempty: "run \<noteq> []"
    unfolding run_def dw by simp
  have "set run \<subseteq> set cleaned"
    unfolding run_def using set_takeWhileD set_dropWhileD by fastforce
  then have "\<forall>c \<in> set run. \<not> isDigit c"
    using no_digit by blast
  then have "parseFloat run = NaN"
    by (rule parseFloat_no_digit)
  moreover have "text \<noteq> []"
    using assms(2) by auto
  ultimately show ?thesis
    using nonempty unfolding parsePrice_def Let_def cleaned_def [symmetric] run_def [symmetric]
    by simp
qed

text \<open>
  Claim C4, as amended. On a text that has a decimal point and no digit (the text \<open>.\<close> for
  one) the pattern \<open>/[\d.]+/\<close> does match, so \<open>parsePrice\<close> returns what \<open>parseFloat\<close>
  makes of the run of points: \<open>NaN\<close>, which is neither \<open>null\<close> nor 0 nor any finite
  number. \<open>NaN\<close> is falsy, so the scan leaves out a row with such a price text.
\<close>

theorem parsePrice_point_is_NaN:
  assumes "\<forall>c \<in> set text. \<not> isDigit c" and "CHR ''.'' \<in> set text"
  shows "parsePrice text = Some NaN \<and> \<not> truthy (parsePrice text)
         \<and> scanRow d [label, text] = d"
proof -
  have whole: "parsePrice text = Some NaN"
    using assms by (rule parsePrice_no_digit)
  have "\<forall>c \<in> set (trim text). \<not> isDigit c"
    using assms(1) set_trim_subset [where s = "text"] by blast
  moreover have "CHR ''.'' \<in> set (trim text)"
    using assms(2) point_not_space by (rule in_set_trim)
  ultimately have "parsePrice (trim text) = Some NaN"
    by (rule parsePrice_no_digit)
  then have "scanRow d [label, text] = d"
    by (simp add: scanRow_def)
  with whole show ?thesis by simp
qed

theorem parsePrice_point_is_NaN_witness:
  "parsePrice ''.'' = Some NaN \<and> \<not> truthy (parsePrice ''.'')
   \<and> scanRow (initialData ''x'') [''Tax'', ''.''] = initialData ''x''"
proof -
  have "\<forall>c \<in> set ''.''. \<not> isDigit c" and "CHR ''.'' \<in> set ''.''"
    by (simp_all add: isDigit_def code_def)
  then show ?thesis
    by (rule parsePrice_point_is_NaN)
qed

text \<open>The claim as it was stated (the result is "no value", that is \<open>null\<close>) fails.\<close>

theorem parsePrice_point_counterexample: "parsePrice ''.'' \<noteq> None"
  by (simp add: parsePrice_eval)

section \<open>The patterns of the classifier\<close>

lemma startsWithIgnoreCase_append:
  "equalIgnoreCase m w \<Longrightarrow> startsWithIgnoreCase (m @ s) w"
proof (induction m arbitrary: w)
  case Nil
  then show ?case by (simp add: equalIgnoreCase_def)
next
  case (Cons x m)
  then obtain y w' where w: "w = y # w'"
    by (cases w) (auto simp: equalIgnoreCase_def)
  with Cons show ?case by (simp add: equalIgnoreCase_def)
qed

lemma equalIgnoreCase_length: "equalIgnoreCase m w \<Longrightarrow> length m = length w"
  unfolding equalIgnoreCase_def by (rule map_eq_imp_length_eq)

lemma matchHere_Chars:
  assumes "equalIgnoreCase m w" and "matchHere ps s"
  shows "matchHere (Chars w # ps) (m @ s)"
  using assms startsWithIgnoreCase_append [OF assms(1), of s] equalIgnoreCase_length [OF assms(1)]
  by simp

lemma matchHere_AnyStar_here: "matchHere ps s \<Longrightarrow> matchHere (AnyStar # ps) s"
  by (cases s) simp_all

lemma matchHere_AnyStar:
  "\<forall>x \<in> set b. \<not> isLineTerminator x \<Longrightarrow> matchHere ps s \<Longrightarrow> matchHere (AnyStar # ps) (b @ s)"
  by (induction b) (simp_all add: matchHere_AnyStar_here)

lemma matches_here: "matchHere re s \<Longrightarrow> matches s re"
  by (cases s) simp_all

lemma matches_append: "matchHere re s \<Longrightarrow> matches (a @ s) re"
  by (induction a) (simp_all add: matches_here)

lemma matches_three_words:
  assumes "equalIgnoreCase m w1" "equalIgnoreCase q w2" "equalIgnoreCase r w3"
    and "\<forall>x \<in> set b. \<not> isLineTerminator x" "\<forall>x \<in> set c. \<not> isLineTerminator x"
  shows "matches (a @ m @ b @ q @ c @ r @ d) (words [w1, w2, w3])"
proof -
  have "matchHere [Chars w3] (r @ d)"
    using matchHere_Chars [OF assms(3), of "[]" d] by simp
  then have "matchHere [AnyStar, Chars w3] (c @ r @ d)"
    by (rule matchHere_AnyStar [OF assms(5)])
  then have "matchHere [Chars w2, AnyStar, Chars w3] (q @ c @ r @ d)"
    by (rule matchHere_Chars [OF assms(2)])
  then have "matchHere [AnyStar, Chars w2, AnyStar, Chars w3] (b @ q @ c @ r @ d)"
    by (rule matchHere_AnyStar [OF assms(4)])
  then have "matchHere [Chars w1, AnyStar, Chars w2, AnyStar, Chars w3] (m @ b @ q @ c @ r @ d)"
    by (rule matchHere_Chars [OF assms(1)])
  then show ?thesis
    by (simp add: matches_append)
qed

text \<open>
  Claim C5, as amended. A label in which \<open>meal\<close>, then \<open>inexpensive\<close> or \<open>cheap\<close>, then
  \<open>restaurant\<close> occur in this order (letter case ignored), with no line terminator between
  one word and the next, and which neither housing rule takes, is classified
  \<open>mealRestaurant\<close>.
\<close>

theorem classify_meal_in_order:
  assumes "label = a @ m @ b @ q @ c @ r @ d"
    and "equalIgnoreCase m ''meal''"
    and "equalIgnoreCase q ''inexpensive'' \<or> equalIgnoreCase q ''cheap''"
    and "equalIgnoreCase r ''restaurant''"
    and "\<forall>x \<in> set b. \<not> isLineTerminator x"
    and "\<forall>x \<in> set c. \<not> isLineTerminator x"
    and "classify label \<noteq> Some HousingCenter"
    and "classify label \<noteq> Some HousingOutside"
  shows "classify label = Some MealRestaurant"
proof -
  have "matches label (words [''meal'', ''inexpensive'', ''restaurant''])
        \<or> matches label (words [''meal'', ''cheap'', ''restaurant''])"
    using assms(3)
  proof
    assume "equalIgnoreCase q ''inexpensive''"
    then show ?thesis
      unfolding assms(1) using matches_three_words [OF assms(2) _ assms(4) assms(5) assms(6)] by blast
  next
    assume "equalIgnoreCase q ''cheap''"
    then show ?thesis
      unfolding assms(1) using matches_three_words [OF assms(2) _ assms(4) assms(5) assms(6)] by blast
  qed
  then show ?thesis
    using assms(7) assms(8) unfolding classify_def by (auto split: if_splits)
qed

theorem classify_meal_in_order_witness:
  "classify ''Meal, Inexpensive Restaurant'' = Some MealRestaurant"
proof -
  have "''Meal, Inexpensive Restaurant'' = [] @ ''Meal'' @ '', '' @ ''Inexpensive'' @ '' '' @ ''Restaurant'' @ []"
    by simp
  moreover have "equalIgnoreCase ''Meal'' ''meal''"
    "equalIgnoreCase ''Inexpensive'' ''inexpensive'' \<or> equalIgnoreCase ''Inexpensive'' ''cheap''"
    "equalIgnoreCase ''Restaurant'' ''restaurant''"
    by (simp_all add: equalIgnoreCase_def char_classes)
  moreover have "\<forall>x \<in> set '', ''. \<not> isLineTerminator x" "\<forall>x \<in> set '' ''. \<not> isLineTerminator x"
    by (simp_all add: char_classes)
  moreover have "classify ''Meal, Inexpensive Restaurant'' \<noteq> Some HousingCenter"
    "classify ''Meal, Inexpensive Restaurant'' \<noteq> Some HousingOutside"
    by (simp_all add: classify_eval)
  ultimately show ?thesis
    by (rule classify_meal_in_order)
qed

text \<open>The claim as it was stated asks only that the three words occur somewhere in the
  label. A label that has them in another order is left unclassified.\<close>

theorem classify_meal_out_of_order_counterexample:
  "includesStr (toLowerCase ''Restaurant meal, inexpensive'') ''meal''
   \<and> includesStr (toLowerCase ''Restaurant meal, inexpensive'') ''restaurant''
   \<and> includesStr (toLowerCase ''Restaurant meal, inexpensive'') ''inexpensive''
   \<and> classify ''Restaurant meal, inexpensive'' \<noteq> Some HousingCenter
   \<and> classify ''Restaurant meal, inexpensive'' \<noteq> Some HousingOutside
   \<and> classify ''Restaurant meal, inexpensive'' \<noteq> Some MealRestaurant"
  by (simp add: classify_eval toLowerCase_def toLowerChar_def code_def char_of_def bit_0)

section \<open>The table scan\<close>

lemma scanRow_rowEntry:
  "scanRow d cells =
     (case rowEntry cells of
        None \<Rightarrow> d
      | Some (l, p) \<Rightarrow>
          (case classify l of
             None \<Rightarrow> d\<lparr>rawData := rawData d @ [(l, p)]\<rparr>
           | Some k \<Rightarrow> d\<lparr>rawData := rawData d @ [(l, p)], categories := (categories d)(k \<mapsto> p)\<rparr>))"
  by (simp add: scanRow_def rowEntry_def Let_def split: option.splits)

lemma rawData_scanRow:
  "rawData (scanRow d cells) = rawData d @ (case rowEntry cells of None \<Rightarrow> [] | Some e \<Rightarrow> [e])"
  by (simp add: scanRow_rowEntry split: option.splits)

lemma rawData_scanRows:
  "rawData (scanRows d rows) = rawData d @ List.map_filter rowEntry rows"
proof (induction rows arbitrary: d)
  case Nil
  show ?case by (simp add: scanRows_def List.map_filter_simps)
next
  case (Cons r rows)
  have "rawData (scanRows d (r # rows)) = rawData (scanRows (scanRow d r) rows)"
    by (simp add: scanRows_def)
  also have "\<dots> = rawData (scanRow d r) @ List.map_filter rowEntry rows"
    by (rule Cons.IH)
  finally show ?case
    by (simp add: rawData_scanRow List.map_filter_simps split: option.splits)
qed

text \<open>The rows of all tables are scanned in document order, as one sequence.\<close>

lemma scanTables_concat: "scanTables d tables = scanRows d (concat tables)"
proof (induction tables arbitrary: d)
  case Nil
  show ?case by (simp add: scanTables_def scanRows_def)
next
  case (Cons t tables)
  have "scanTables d (t # tables) = scanTables (scanRows d t) tables"
    by (simp add: scanTables_def)
  then show ?case
    using Cons.IH [of "scanRows d t"] by (simp add: scanRows_def)
qed

lemma scanRows_append: "scanRows d (xs @ ys) = scanRows (scanRows d xs) ys"
  by (simp add: scanRows_def)

lemma categories_scanRow_other:
  assumes "\<forall>l p. rowEntry cells = Some (l, p) \<longrightarrow> classify l \<noteq> Some k"
  shows "categories (scanRow d cells) k = categories d k"
  using assms by (auto simp: scanRow_rowEntry split: option.splits)

lemma categories_scanRows_other:
  assumes "\<forall>r \<in> set rows. \<forall>l p. rowEntry r = Some (l, p) \<longrightarrow> classify l \<noteq> Some k"
  shows "categories (scanRows d rows) k = categories d k"
  using assms
proof (induction rows arbitrary: d)
  case Nil
  show ?case by (simp add: scanRows_def)
next
  case (Cons r rows)
  have "categories (scanRows d (r # rows)) k = categories (scanRows (scanRow d r) rows) k"
    by (simp add: scanRows_def)
  also have "\<dots> = categories (scanRow d r) k"
    using Cons.prems by (intro Cons.IH) simp
  also have "\<dots> = categories d k"
    using Cons.prems by (intro categories_scanRow_other) simp
  finally show ?case .
qed

lemma rowEntry_Some:
  assumes "2 \<le> length cells" and "trim (cells ! 0) \<noteq> []"
    and "parsePrice (trim (cells ! 1)) = Some (Finite p)" and "p \<noteq> 0"
  shows "rowEntry cells = Some (trim (cells ! 0), Finite p)"
  using assms by (simp add: rowEntry_def)




text \<open>
  Claim C3, as amended. A row of the scanned tables with at least two cells, a label (cell
  0, trimmed) that is not empty and a price text (cell 1, trimmed) that \<open>parsePrice\<close> turns
  into a finite price other than 0 is appended to the raw list with that label and that
  price, whatever its label is classified as, and is in the raw list at the end of the scan.
\<close>

theorem scan_keeps_priced_row:
  assumes "concat tables = before @ cells # after"
    and "2 \<le> length cells"
    and "trim (cells ! 0) \<noteq> []"
    and "parsePrice (trim (cells ! 1)) = Some (Finite p)"
    and "p \<noteq> 0"
  shows "rawData (scanRows d (before @ [cells]))
           = rawData (scanRows d before) @ [(trim (cells ! 0), Finite p)]
         \<and> (trim (cells ! 0), Finite p) \<in> set (rawData (scanTables d tables))"
proof -
  have e: "rowEntry cells = Some (trim (cells ! 0), Finite p)"
    using assms(2-5) by (rule rowEntry_Some)
  have "rawData (scanRows d (before @ [cells]))
          = rawData (scanRows d before) @ [(trim (cells ! 0), Finite p)]"
    by (simp add: scanRows_append rawData_scanRows [of _ "[cells]"] List.map_filter_simps e)
  moreover have "(trim (cells ! 0), Finite p) \<in> set (rawData (scanTables d tables))"
    by (simp add: scanTables_concat assms(1) rawData_scanRows List.map_filter_def e)
  ultimately show ?thesis by simp
qed

theorem scan_keeps_priced_row_witness:
  "(''Gasoline'', Finite (7 / 2))
     \<in> set (rawData (scanTables (initialData ''x'') [[[''Gasoline'', ''3.50'']]]))"
proof -
  have "concat [[[''Gasoline'', ''3.50'']]] = [] @ [''Gasoline'', ''3.50''] # []"
    by simp
  moreover have "2 \<le> length [''Gasoline'', ''3.50'']"
    by simp
  moreover have "trim ([''Gasoline'', ''3.50''] ! 0) \<noteq> []"
    by (simp add: trim_eval)
  moreover have "parsePrice (trim ([''Gasoline'', ''3.50''] ! 1)) = Some (Finite (7 / 2))"
    by (simp add: trim_eval parsePrice_eval)
  moreover have "(7 / 2 :: rat) \<noteq> 0"
    by simp
  ultimately show ?thesis
    using scan_keeps_priced_row [of "[[[''Gasoline'', ''3.50'']]]" "[]" "[''Gasoline'', ''3.50'']" "[]"
        "7 / 2" "initialData ''x''"]
    by (simp add: trim_eval)
qed

text \<open>The claim as it was stated includes a parsed price equal to 0. The guard
  \<open>if (label && price)\<close> is false for it, and the row is not recorded.\<close>

theorem scan_drops_zero_price_counterexample:
  "2 \<le> length [''Free parking'', ''0.00'']
   \<and> trim ([''Free parking'', ''0.00''] ! 0) \<noteq> []
   \<and> parsePrice (trim ([''Free parking'', ''0.00''] ! 1)) = Some (Finite 0)
   \<and> rawData (scanTables (initialData ''x'') [[[''Free parking'', ''0.00'']]]) = []"
  by (simp add: trim_eval parsePrice_eval scanTables_def scanRows_def scanRow_rowEntry
      rowEntry_eval initialData_def)

text \<open>
  Claim C8. The category map is a map, so it holds at most one value for a key. When a row
  that the scan records (\<open>rowEntry\<close>) is classified under a key and no recorded row after
  it in document order is classified under that key, the value of the key at the end of
  the scan is the price of that row, whatever rows before it wrote there: of two recorded
  rows of one category the later one decides.
\<close>

theorem scan_last_match_wins:
  assumes "concat tables = before @ cells # after"
    and "rowEntry cells = Some (label, price)"
    and "classify label = Some k"
    and "\<forall>r \<in> set after. \<forall>l p. rowEntry r = Some (l, p) \<longrightarrow> classify l \<noteq> Some k"
  shows "categories (scanTables d tables) k = Some price"
proof -
  have "scanTables d tables = scanRows (scanRow (scanRows d before) cells) after"
    by (simp add: scanTables_concat assms(1) scanRows_def)
  then have "categories (scanTables d tables) k = categories (scanRow (scanRows d before) cells) k"
    using categories_scanRows_other [OF assms(4)] by simp
  also have "\<dots> = Some price"
    by (simp add: scanRow_rowEntry assms(2) assms(3))
  finally show ?thesis .
qed

text \<open>Two rows of the category \<open>housingCenter\<close>, 1000 and then 2000, and a row of no
  category after them: the first alone gives 1000, the scan of the three gives 2000.\<close>

theorem scan_last_match_wins_witness:
  "categories (scanTables (initialData ''x'')
      [[[''Apartment (1 bedroom) in City Centre'', ''1000'']],
       [[''Rent 1 bed center'', ''2000''], [''Gasoline'', ''3.50'']]]) HousingCenter
     = Some (Finite 2000)
   \<and> categories (scanTables (initialData ''x'')
      [[[''Apartment (1 bedroom) in City Centre'', ''1000'']]]) HousingCenter
     = Some (Finite 1000)"
proof -
  have "concat [[[''Apartment (1 bedroom) in City Centre'', ''1000'']],
       [[''Rent 1 bed center'', ''2000''], [''Gasoline'', ''3.50'']]]
     = [[''Apartment (1 bedroom) in City Centre'', ''1000'']] @ [''Rent 1 bed center'', ''2000'']
         # [[''Gasoline'', ''3.50'']]"
    by simp
  moreover have "rowEntry [''Rent 1 bed center'', ''2000''] = Some (''Rent 1 bed center'', Finite 2000)"
    by (simp add: rowEntry_eval)
  moreover have "classify ''Rent 1 bed center'' = Some HousingCenter"
    by (simp add: classify_eval)
  moreover have "\<forall>r \<in> set [[''Gasoline'', ''3.50'']]. \<forall>l p. rowEntry r = Some (l, p) \<longrightarrow> classify l \<noteq> Some HousingCenter"
    by (simp add: rowEntry_eval classify_eval)
  ultimately have "categories (scanTables (initialData ''x'')
      [[[''Apartment (1 bedroom) in City Centre'', ''1000'']],
       [[''Rent 1 bed center'', ''2000''], [''Gasoline'', ''3.50'']]]) HousingCenter
     = Some (Finite 2000)"
    by (rule scan_last_match_wins)
  moreover have "categories (scanTables (initialData ''x'')
      [[[''Apartment (1 bedroom) in City Centre'', ''1000'']]]) HousingCenter
     = Some (Finite 1000)"
    by (simp add: scanTables_def scanRows_def scanRow_rowEntry rowEntry_eval classify_eval)
  ultimately show ?thesis by simp
qed

section \<open>The estimates and the response\<close>

lemma orElse_zero_upd: "orElse ((fd(k \<mapsto> Finite 0)) j) d = orElse ((fd(k := None)) j) d"
  by simp

lemma estimateGroceries_zero_upd:
  "estimateGroceries ((fd(k \<mapsto> Finite 0)) j) = estimateGroceries ((fd(k := None)) j)"
  by simp

text \<open>
  Claim C10. A category whose value in the data source is 0 is treated as a category with
  no value: the response is the one of the data source without that key. So the housing
  amounts, transportation and utilities take their defaults 1200, 800, 70 and 150, and a
  meal price of 0 gives groceries 400 and entertainment 150.
\<close>

theorem assemble_zero_is_missing:
  "assemble c today (finalData(k \<mapsto> Finite 0)) numbeoData redditPosts
     = assemble c today (finalData(k := None)) numbeoData redditPosts
   \<and> housing_cityCenter (assemble c today (finalData(HousingCenter \<mapsto> Finite 0)) numbeoData redditPosts)
       = Finite 1200
   \<and> housing_outside (assemble c today (finalData(HousingOutside \<mapsto> Finite 0)) numbeoData redditPosts)
       = Finite 800
   \<and> transportation_monthly (assemble c today (finalData(Transportation \<mapsto> Finite 0)) numbeoData redditPosts)
       = Finite 70
   \<and> utilities_monthly (assemble c today (finalData(Utilities \<mapsto> Finite 0)) numbeoData redditPosts)
       = Finite 150
   \<and> food_monthly (assemble c today (finalData(MealRestaurant \<mapsto> Finite 0)) numbeoData redditPosts)
       = Finite 400
   \<and> entertainment_monthly (assemble c today (finalData(MealRestaurant \<mapsto> Finite 0)) numbeoData redditPosts)
       = Finite 150
   \<and> estimateGroceries (Some (Finite 0)) = Finite 400"
proof -
  have "assemble c today (finalData(k \<mapsto> Finite 0)) numbeoData redditPosts
          = assemble c today (finalData(k := None)) numbeoData redditPosts"
    unfolding assemble_def Let_def orElse_zero_upd estimateGroceries_zero_upd ..
  moreover have "Math_round (Finite 1200) = Finite 1200" "Math_round (Finite 800) = Finite 800"
    "Math_round (Finite 70) = Finite 70" "Math_round (Finite 150) = Finite 150"
    by (simp_all add: floor_rat)
  ultimately show ?thesis
    by (simp add: assemble_def floor_rat toDouble_eval)
qed

theorem assemble_zero_is_missing_witness:
  "housing_cityCenter (assemble ''x'' ''d'' [HousingCenter \<mapsto> Finite 0] None []) = Finite 1200
   \<and> utilities_monthly (assemble ''x'' ''d'' [Utilities \<mapsto> Finite 0] None []) = Finite 150
   \<and> food_monthly (assemble ''x'' ''d'' [MealRestaurant \<mapsto> Finite 0] None []) = Finite 400"
  using assemble_zero_is_missing [of "''x''" "''d''" Map.empty HousingCenter None "[]"]
  by blast

section \<open>Prices that are digits only\<close>

lemma digit_not_space: "isDigit c \<Longrightarrow> \<not> isSpace c"
  by (auto simp: isDigit_def isSpace_def)

lemma digit_not_separator: "isDigit c \<Longrightarrow> c \<noteq> CHR '','' \<and> c \<noteq> CHR ''$''"
  by (auto simp: isDigit_def code_def)

lemma dropWhile_none: "\<forall>c \<in> set s. \<not> P c \<Longrightarrow> dropWhile P s = s"
  by (cases s) simp_all

lemma trim_no_space:
  assumes "\<forall>c \<in> set s. \<not> isSpace c"
  shows "trim s = s"
proof -
  have "dropWhile isSpace s = s"
    using assms by (rule dropWhile_none)
  moreover have "dropWhile isSpace (rev s) = rev s"
    using assms by (intro dropWhile_none) simp
  ultimately show ?thesis
    by (simp add: trim_def)
qed

text \<open>A text made of digits only is read as the double nearest to its decimal value.\<close>

lemma parsePrice_digits:
  assumes "ds \<noteq> []" and "\<forall>c \<in> set ds. isDigit c"
  shows "parsePrice ds = Some (toDouble (digitsValue ds))"
proof -
  have keep: "filter (\<lambda>c. c \<noteq> CHR '','' \<and> c \<noteq> CHR ''$'') ds = ds"
    using assms(2) digit_not_separator by (intro filter_True) blast
  have "\<forall>c \<in> set ds. \<not> isSpace c"
    using assms(2) digit_not_space by blast
  then have trimmed: "trim ds = ds"
    by (rule trim_no_space)
  have price: "\<forall>c \<in> set ds. isPriceChar c"
    using assms(2) by (simp add: isPriceChar_def)
  then have f1: "dropWhile (\<lambda>c. \<not> isPriceChar c) ds = ds"
    by (intro dropWhile_none) simp
  have f2: "takeWhile isPriceChar ds = ds"
    using price by (intro takeWhile_eq_all_conv [THEN iffD2]) simp
  have f3: "takeWhile isDigit ds = ds"
    using assms(2) by (intro takeWhile_eq_all_conv [THEN iffD2]) simp
  have f4: "dropWhile isDigit ds = []"
    using assms(2) by simp
  show ?thesis
    by (simp add: parsePrice_def parseFloat_def Let_def keep trimmed f1 f2 f3 f4 assms(1)
        digitsValue_def)
qed

lemma digitsValue_zeros:
  "digitsValue (ds @ replicate n (CHR ''0'')) = digitsValue ds * 10 ^ n"
proof (induction n)
  case 0
  show ?case by simp
next
  case (Suc n)
  have "digitsValue (ds @ replicate (Suc n) (CHR ''0''))
          = digitsValue ((ds @ replicate n (CHR ''0'')) @ [CHR ''0''])"
    by (simp add: replicate_append_same)
  also have "\<dots> = 10 * digitsValue (ds @ replicate n (CHR ''0''))"
    unfolding digitsValue_def foldl_append by (simp add: code_def)
  finally show ?case
    by (simp add: Suc.IH)
qed

lemma parsePrice_hugePrice: "parsePrice hugePrice = Some PosInfinity"
proof -
  have "hugePrice \<noteq> []" and "\<forall>c \<in> set hugePrice. isDigit c"
    by (auto simp: hugePrice_def isDigit_def code_def)
  then have "parsePrice hugePrice = Some (toDouble (digitsValue hugePrice))"
    by (rule parsePrice_digits)
  moreover have "digitsValue hugePrice = 10 ^ 309"
    unfolding hugePrice_def digitsValue_zeros by (simp add: digitsValue_def code_def)
  moreover have "toDouble (10 ^ 309) = PosInfinity"
    by (simp add: double_eval)
  ultimately show ?thesis by simp
qed

lemma trim_hugePrice: "trim hugePrice = hugePrice"
  by (rule trim_no_space) (auto simp: hugePrice_def isSpace_def code_def)

lemma orElse_not_NaN: "orElse v (Finite d) \<noteq> NaN"
proof (cases v)
  case None
  then show ?thesis by simp
next
  case (Some x)
  then show ?thesis by (cases x) simp_all
qed

lemma mulNum_not_NaN: "x \<noteq> NaN \<Longrightarrow> 0 < b \<Longrightarrow> mulNum x (Finite b) \<noteq> NaN"
  by (cases x) (simp_all add: toDouble_not_NaN)

lemma divNum_not_NaN: "x \<noteq> NaN \<Longrightarrow> 0 < b \<Longrightarrow> divNum x (Finite b) \<noteq> NaN"
  by (cases x) (simp_all add: toDouble_not_NaN)

lemma Math_round_whole_or_infinite:
  "x \<noteq> NaN \<Longrightarrow> isWhole (Math_round x) \<or> Math_round x = PosInfinity \<or> Math_round x = NegInfinity"
  by (cases x) simp_all

lemma estimateGroceries_whole_or_infinite:
  "isWhole (estimateGroceries v) \<or> estimateGroceries v = PosInfinity
   \<or> estimateGroceries v = NegInfinity"
proof (cases "truthy v")
  case False
  then show ?thesis by (cases v) simp_all
next
  case True
  then obtain m where v: "v = Some m"
    by (cases v) auto
  then have "m \<noteq> NaN"
    using True by (cases m) auto
  then have "divNum (mulNum m (Finite 60)) (Finite 3) \<noteq> NaN"
    by (intro divNum_not_NaN mulNum_not_NaN) simp_all
  then show ?thesis
    using True v Math_round_whole_or_infinite by simp
qed

text \<open>Every amount of a response is a whole number or an infinity, never \<open>NaN\<close>.\<close>

lemma assemble_whole_or_infinite:
  "(isWhole (housing_cityCenter (assemble c today fd nd ps))
      \<or> housing_cityCenter (assemble c today fd nd ps) \<in> {PosInfinity, NegInfinity})
   \<and> (isWhole (housing_outside (assemble c today fd nd ps))
      \<or> housing_outside (assemble c today fd nd ps) \<in> {PosInfinity, NegInfinity})
   \<and> (isWhole (food_monthly (assemble c today fd nd ps))
      \<or> food_monthly (assemble c today fd nd ps) \<in> {PosInfinity, NegInfinity})
   \<and> (isWhole (transportation_monthly (assemble c today fd nd ps))
      \<or> transportation_monthly (assemble c today fd nd ps) \<in> {PosInfinity, NegInfinity})
   \<and> (isWhole (utilities_monthly (assemble c today fd nd ps))
      \<or> utilities_monthly (assemble c today fd nd ps) \<in> {PosInfinity, NegInfinity})
   \<and> (isWhole (entertainment_monthly (assemble c today fd nd ps))
      \<or> entertainment_monthly (assemble c today fd nd ps) \<in> {PosInfinity, NegInfinity})"
proof -
  have "mulNum (orElse (fd MealRestaurant) (Finite 15)) (Finite 10) \<noteq> NaN"
    by (intro mulNum_not_NaN orElse_not_NaN) simp
  then show ?thesis
    unfolding assemble_def Let_def
    using Math_round_whole_or_infinite orElse_not_NaN estimateGroceries_whole_or_infinite
    by simp
qed

section \<open>The request\<close>








lemma scrape_hugePrice:
  "scrapeNumbeo c (Some [[[''Apartment (1 bedroom) in City Centre'', hugePrice]]])
     = Some ((initialData c)\<lparr>rawData := [(''Apartment (1 bedroom) in City Centre'', PosInfinity)],
                categories := [HousingCenter \<mapsto> PosInfinity]\<rparr>)"
  by (simp add: scrapeNumbeo_def scanTables_def scanRows_def scanRow_def trim_eval trim_hugePrice
      parsePrice_hugePrice classify_eval initialData_def)

text \<open>
  Claim C7. The claim is that every response has its five categories populated with numeric
  values. The amounts are indeed never missing and never \<open>NaN\<close>
  (\<open>assemble_whole_or_infinite\<close>), but a scraped price is not checked for overflow: for a
  page whose city-centre row has the price \<open>1\<close> followed by 309 zeros, \<open>parseFloat\<close> gives
  \<open>Infinity\<close>, which is truthy, is kept by \<open>||\<close> and by \<open>Math.round\<close>, and is sent by
  \<open>res.json\<close> as \<open>null\<close>.
\<close>

theorem handler_overflowing_price_sent_as_null:
  "handler ''Springfield'' today
       (Some [[[''Apartment (1 bedroom) in City Centre'', hugePrice]]]) redditPosts
     = Inr (assemble ''Springfield'' today [HousingCenter \<mapsto> PosInfinity]
              (scrapeNumbeo ''Springfield''
                 (Some [[[''Apartment (1 bedroom) in City Centre'', hugePrice]]])) redditPosts)
   \<and> housing_cityCenter (assemble ''Springfield'' today [HousingCenter \<mapsto> PosInfinity]
              (scrapeNumbeo ''Springfield''
                 (Some [[[''Apartment (1 bedroom) in City Centre'', hugePrice]]])) redditPosts)
       = PosInfinity
   \<and> jsonNumber (housing_cityCenter (assemble ''Springfield'' today [HousingCenter \<mapsto> PosInfinity]
              (scrapeNumbeo ''Springfield''
                 (Some [[[''Apartment (1 bedroom) in City Centre'', hugePrice]]])) redditPosts))
       = None"
  by (simp add: handler_def scrape_hugePrice initialData_def assemble_def)

lemma scrape_gasoline:
  "scrapeNumbeo c (Some [[[''Gasoline'', ''3.50'']]])
     = Some ((initialData c)\<lparr>rawData := [(''Gasoline'', Finite (7 / 2))]\<rparr>)"
  by (simp add: scrapeNumbeo_def scanTables_def scanRows_def scanRow_rowEntry rowEntry_eval
      classify_eval initialData_def)

text \<open>
  Claim C2. The claim is that the sources are marked live exactly when the scraped
  category map is the data source, and estimated when the fallback record supplies the
  numbers. The handler chooses the data source with
  \<open>numbeoData && numbeoData.categories.housingCenter\<close> and marks the sources with
  \<open>numbeoData\<close> alone. For the city \<open>new york\<close> and a page whose only row is
  \<open>Gasoline, 3.50\<close>, the scrape returns an object with no \<open>housingCenter\<close>, the numbers are
  those of the fallback record (3500 for the city centre), and the sources read
  \<open>Numbeo.com (live)\<close>.
\<close>

theorem handler_live_label_on_fallback_data:
  "categories (the (scrapeNumbeo ''new york'' (Some [[[''Gasoline'', ''3.50'']]]))) HousingCenter = None
   \<and> handler ''new york'' today (Some [[[''Gasoline'', ''3.50'']]]) redditPosts
     = Inr (assemble ''new york'' today (fromFallback (Own (entry 3500 2500 20 127 150)))
              (scrapeNumbeo ''new york'' (Some [[[''Gasoline'', ''3.50'']]])) redditPosts)
   \<and> sources (assemble ''new york'' today (fromFallback (Own (entry 3500 2500 20 127 150)))
              (scrapeNumbeo ''new york'' (Some [[[''Gasoline'', ''3.50'']]])) redditPosts)
       = [''Numbeo.com (live)'', ''Reddit discussions'']
   \<and> housing_cityCenter (assemble ''new york'' today (fromFallback (Own (entry 3500 2500 20 127 150)))
              (scrapeNumbeo ''new york'' (Some [[[''Gasoline'', ''3.50'']]])) redditPosts)
       = Finite 3500"
  by (simp add: handler_def scrape_gasoline getFallbackData_eval initialData_def assemble_def
      entry_def floor_rat)

text \<open>When the scrape gives no \<open>housingCenter\<close> and the fallback lookup returns nothing, the
  request ends with the 404 body, whose suggestion and tip are not empty.\<close>

lemma handler_not_found:
  assumes "case scrapeNumbeo c page of None \<Rightarrow> True | Some nd \<Rightarrow> \<not> truthy (categories nd HousingCenter)"
    and "getFallbackData c = None"
  shows "handler c today page redditPosts = Inl (notFound c)"
  using assms unfolding handler_def Let_def by (auto split: option.splits)

lemma notFound_fields:
  "suggestion (notFound c) \<noteq> [] \<and> tip (notFound c) \<noteq> []
   \<and> suggestion (notFound c)
       = (if includesStr (toLowerCase c) ''mountain''
          then ''Try: '' @ quote ''Mountain View'' @ '' without CA''
          else ''Try major cities like: New York, Los Angeles, San Francisco, Seattle, Chicago, Boston, Austin, or international cities like London, Tokyo, Paris'')"
  by (simp add: notFound_def)

text \<open>
  Claim C9. The claim is that a city with no usable scrape and an unregistered fallback key
  gets the not-found error. The lookup \<open>fallbackCities[cityKey]\<close> also finds the properties
  that the table inherits: for the city \<open>constructor\<close>, which the table does not register
  and for which the scrape fails, \<open>getFallbackData\<close> returns a truthy value, the handler
  does not take the not-found branch, and the request succeeds with the defaults (1200,
  800, 400, 70, 150, 150).
\<close>

theorem handler_constructor_gets_defaults:
  "map_of fallbackCities (cityKey ''constructor'') = None
   \<and> scrapeNumbeo ''constructor'' None = None
   \<and> handler ''constructor'' today None redditPosts
       = Inr (assemble ''constructor'' today Map.empty None redditPosts)
   \<and> housing_cityCenter (assemble ''constructor'' today Map.empty None redditPosts) = Finite 1200
   \<and> food_monthly (assemble ''constructor'' today Map.empty None redditPosts) = Finite 400"
  by (simp add: cityKey_eval fallbackCities_def scrapeNumbeo_def handler_def getFallbackData_eval
      assemble_def floor_rat)

end
